theory Spec2Isabelle
  imports Main
begin

section \<open>JavaScript string primitives used by the sources\<close>

text \<open>
  Source strings are modelled as \<^typ>\<open>string\<close>: a list of characters whose codes
  are below 256. Every character test in the sources (\<open>[^0-9]\<close>, \<open>\d\<close>, the
  white space removed by \<open>trim\<close>) is decided by the code of a single character, and the
  digits are the ten ASCII characters \<open>0\<close> to \<open>9\<close>.
\<close>

definition isDigit :: "char \<Rightarrow> bool" where
  "isDigit c = (c \<in> set ''0123456789'')"

text \<open>\<open>s.replace(/[^0-9]/g, '')\<close>: every non-digit is deleted, the order is kept.\<close>

definition removeNonDigits :: "string \<Rightarrow> string" where
  "removeNonDigits s = filter isDigit s"

text \<open>
  \<open>s.slice(start)\<close>: a negative \<open>start\<close> counts from the end and is clamped at
  the beginning of the string, a positive one is clamped at its end.
\<close>

definition js_slice :: "string \<Rightarrow> int \<Rightarrow> string" where
  "js_slice s start =
     (let n = int (length s);
          from = (if start < 0 then max (n + start) 0 else min start n)
      in drop (nat from) s)"

text \<open>
  \<open>s.substring(a, b)\<close> for non-negative arguments: both are clamped at the length
  of the string and swapped when \<open>a\<close> exceeds \<open>b\<close>.
\<close>

definition js_substring :: "string \<Rightarrow> nat \<Rightarrow> nat \<Rightarrow> string" where
  "js_substring s a b =
     (let a' = min a (length s); b' = min b (length s);
          lo = min a' b'; hi = max a' b'
      in take (hi - lo) (drop lo s))"

section \<open>Digit extractor (\<open>src/utils/scannerUtils.ts\<close>)\<close>

text \<open>
  \<^verbatim>\<open>
  export const extractBarcodeIdentifier = (rawInput: string): string => {
    const allDigits = rawInput.replace(/[^0-9]/g, '');
    if (allDigits.length >= 24) {
      const last24Digits = allDigits.slice(-24);
      return last24Digits.substring(0, 14);
    }
    return allDigits.length > 14 ? allDigits.slice(-14) : allDigits;
  };
  \<close>
\<close>

definition extractBarcodeIdentifier :: "string \<Rightarrow> string" where
  "extractBarcodeIdentifier rawInput =
     (let allDigits = removeNonDigits rawInput
      in if length allDigits \<ge> 24
         then (let last24Digits = js_slice allDigits (- 24)
               in js_substring last24Digits 0 14)
         else if length allDigits > 14 then js_slice allDigits (- 14) else allDigits)"

subsection \<open>The reference algorithm, in the words of the specification\<close>

text \<open>
  The specification describes the extractor by "the last \<open>n\<close> characters" and "the first
  \<open>n\<close> characters" of the digit sequence. These two notions are defined here on their
  own, without the index arithmetic of the source.
\<close>

definition firstChars :: "nat \<Rightarrow> string \<Rightarrow> string" where
  "firstChars n s = take n s"

definition lastChars :: "nat \<Rightarrow> string \<Rightarrow> string" where
  "lastChars n s = rev (take n (rev s))"

definition extractIdentifier_spec :: "string \<Rightarrow> string" where
  "extractIdentifier_spec rawText =
     (let digits = filter isDigit rawText
      in if length digits \<ge> 24 then firstChars 14 (lastChars 24 digits)
         else if length digits > 14 then lastChars 14 digits
         else digits)"

section \<open>Inventory data model (\<open>src/store/inventoryStore.ts\<close>)\<close>

text \<open>
  The slot and ledger types are the objects the store builds. A slot's \<open>id\<close> is the
  field \<open>slot_id\<close>; every nullable field is an option. Time stamps are the ISO strings
  produced by \<open>new Date().toISOString()\<close>.
\<close>

datatype slot_status = Empty | Scanned | Pending

record InventorySlot =
  slot_id :: nat
  status :: slot_status
  barcode :: "string option"
  timestamp :: "string option"
  gamepackNumber :: "string option"
  soldOut :: bool

record SoldOutPack =
  pack_id :: string
  pack_gamepackNumber :: string
  gameName :: string
  price :: string
  pack_type :: string
  soldOutDate :: string
  pack_slotId :: nat

record InventoryState =
  slots :: "InventorySlot list"
  selectedSlot :: "nat option"
  soldOutPacks :: "SoldOutPack list"

text \<open>
  The system clock and calendar are outside the repository. A \<open>clock\<close> holds what the
  store reads from them during one call: \<open>isoNow\<close> is \<open>new Date().toISOString()\<close>,
  \<open>dateNow\<close> is \<open>new Date().toDateString()\<close>, and \<open>toDateString ts\<close> is
  \<open>new Date(ts).toDateString()\<close>, the calendar day of a stored time stamp.
\<close>

record clock =
  isoNow :: string
  dateNow :: string
  toDateString :: "string \<Rightarrow> string"

text \<open>JavaScript truthiness of a nullable string: neither \<open>null\<close> nor empty.\<close>

fun truthy :: "string option \<Rightarrow> bool" where
  "truthy None = False"
| "truthy (Some s) = (s \<noteq> [])"

definition emptyGamepack :: string where
  "emptyGamepack = ''00000000000''"

definition emptyBarcode :: string where
  "emptyBarcode = ''00000000000000''"

subsection \<open>Game catalog\<close>

record game_info =
  name :: string
  info_price :: string
  info_type :: string

definition defaultGame :: game_info where
  "defaultGame = \<lparr>name = ''Unknown Game'', info_price = ''N/A'', info_type = ''Scratch-off''\<rparr>"

definition gameData :: "string \<rightharpoonup> game_info" where
  "gameData = map_of
     [(''12345'', \<lparr>name = ''Lucky 7s'', info_price = ''$5'', info_type = ''Scratch-off''\<rparr>),
      (''23456'', \<lparr>name = ''Gold Rush'', info_price = ''$10'', info_type = ''Scratch-off''\<rparr>),
      (''34567'', \<lparr>name = ''Mega Millions'', info_price = ''$20'', info_type = ''Scratch-off''\<rparr>),
      (''45678'', \<lparr>name = ''Cash Explosion'', info_price = ''$30'', info_type = ''Scratch-off''\<rparr>),
      (''56789'', \<lparr>name = ''Diamond Dazzler'', info_price = ''$2'', info_type = ''Scratch-off''\<rparr>),
      (''default'', defaultGame)]"

text \<open>
  \<open>gameData[gamePrefix] || gameData['default']\<close>: the prefix has at most five
  characters, and every entry of the table is an object, hence truthy.
\<close>

definition getGameInfo :: "string \<Rightarrow> game_info" where
  "getGameInfo gamepack =
     (let gamePrefix = js_substring gamepack 0 5
      in case gameData gamePrefix of
           Some info \<Rightarrow> info
         | None \<Rightarrow> (case gameData ''default'' of Some d \<Rightarrow> d | None \<Rightarrow> defaultGame))"

subsection \<open>Store operations\<close>

text \<open>The state the store is created with.\<close>

definition initialState :: InventoryState where
  "initialState = \<lparr>slots = [], selectedSlot = None, soldOutPacks = []\<rparr>"

text \<open>\<open>Array.from({ length: 20 }, (_, i) => ({ id: i + 1, ... }))\<close>\<close>

definition initializeSlots :: "InventoryState \<Rightarrow> InventoryState" where
  "initializeSlots st =
     st\<lparr>slots := map (\<lambda>i. \<lparr>slot_id = i + 1, status = Empty, barcode = None,
                               timestamp = None, gamepackNumber = None, soldOut = False\<rparr>)
                      [0..<20]\<rparr>"

definition updateSlot :: "clock \<Rightarrow> nat \<Rightarrow> string \<Rightarrow> InventoryState \<Rightarrow> InventoryState" where
  "updateSlot clk i code st =
     (let gamepack = (if length code \<ge> 11 then js_substring code 0 11 else code)
      in st\<lparr>slots := map (\<lambda>slot.
                 if slot_id slot = i
                 then slot\<lparr>status := Scanned, barcode := Some code,
                           gamepackNumber := Some gamepack, soldOut := False,
                           timestamp := Some (isoNow clk)\<rparr>
                 else slot) (slots st)\<rparr>)"

definition clearSlot :: "nat \<Rightarrow> InventoryState \<Rightarrow> InventoryState" where
  "clearSlot i st =
     st\<lparr>slots := map (\<lambda>slot.
              if slot_id slot = i
              then slot\<lparr>status := Empty, barcode := None, gamepackNumber := None,
                        soldOut := False, timestamp := None\<rparr>
              else slot) (slots st)\<rparr>"

definition markAsEmpty :: "clock \<Rightarrow> nat \<Rightarrow> InventoryState \<Rightarrow> InventoryState" where
  "markAsEmpty clk i st =
     st\<lparr>slots := map (\<lambda>slot.
              if slot_id slot = i
              then slot\<lparr>status := Empty, barcode := Some emptyBarcode,
                        gamepackNumber := Some emptyGamepack,
                        timestamp := Some (isoNow clk)\<rparr>
              else slot) (slots st)\<rparr>"

text \<open>
  \<open>markAsSoldOut\<close> looks the slot up with \<open>slots.find\<close> and proceeds only under
  \<open>slot && slot.gamepackNumber && slot.gamepackNumber !== "00000000000"\<close>.
\<close>

definition newSoldOutPack :: "clock \<Rightarrow> nat \<Rightarrow> string \<Rightarrow> SoldOutPack" where
  "newSoldOutPack clk i gamepack =
     (let now = isoNow clk; gameInfo = getGameInfo gamepack
      in \<lparr>pack_id = gamepack @ ''-'' @ now,
          pack_gamepackNumber = gamepack,
          gameName = name gameInfo,
          price = info_price gameInfo,
          pack_type = info_type gameInfo,
          soldOutDate = now,
          pack_slotId = i\<rparr>)"

definition markAsSoldOut :: "clock \<Rightarrow> nat \<Rightarrow> InventoryState \<Rightarrow> InventoryState" where
  "markAsSoldOut clk i st =
     (case find (\<lambda>s. slot_id s = i) (slots st) of
        None \<Rightarrow> st
      | Some slot \<Rightarrow>
          (case gamepackNumber slot of
             None \<Rightarrow> st
           | Some gamepack \<Rightarrow>
               if gamepack \<noteq> [] \<and> gamepack \<noteq> emptyGamepack
               then st\<lparr>slots := map (\<lambda>s. if slot_id s = i then s\<lparr>soldOut := True\<rparr> else s)
                                     (slots st),
                       soldOutPacks := soldOutPacks st @ [newSoldOutPack clk i gamepack]\<rparr>
               else st))"

subsection \<open>Store queries\<close>

text \<open>
  \<^verbatim>\<open>
  if (!slot?.barcode || slot.gamepackNumber === "00000000000") { return null; }
  return slot.gamepackNumber || null;
  \<close>
\<close>

definition getPreviousGamepack :: "nat \<Rightarrow> InventoryState \<Rightarrow> string option" where
  "getPreviousGamepack i st =
     (case find (\<lambda>s. slot_id s = i) (slots st) of
        None \<Rightarrow> None
      | Some slot \<Rightarrow>
          if \<not> truthy (barcode slot) \<or> gamepackNumber slot = Some emptyGamepack then None
          else if truthy (gamepackNumber slot) then gamepackNumber slot else None)"

text \<open>
  The predicate given to \<open>slots.some\<close>: the slot has a time stamp, holds the gamepack,
  its time stamp falls on today's date and it is not sold out.
\<close>

definition activeToday :: "clock \<Rightarrow> string \<Rightarrow> InventorySlot \<Rightarrow> bool" where
  "activeToday clk gamepack slot =
     (case timestamp slot of
        None \<Rightarrow> False
      | Some ts \<Rightarrow>
          if ts = [] \<or> gamepackNumber slot \<noteq> Some gamepack then False
          else toDateString clk ts = dateNow clk \<and> \<not> soldOut slot)"

definition checkGamepackUniqueness :: "clock \<Rightarrow> string \<Rightarrow> InventoryState \<Rightarrow> bool" where
  "checkGamepackUniqueness clk gamepack st =
     (if gamepack = emptyGamepack then True
      else \<not> list_ex (activeToday clk gamepack) (slots st))"

section \<open>Validator (\<open>src/utils/barcodeValidation.ts\<close>)\<close>

text \<open>
  The result object has the fields \<open>isValid\<close>, \<open>message\<close>, \<open>requiresConfirmation\<close>
  and \<open>previousGamepack\<close>; a field the source leaves out is \<open>None\<close> (or \<open>False\<close>
  for the flag, which callers only test for truth).
\<close>

record ValidationResult =
  isValid :: bool
  message :: "string option"
  requiresConfirmation :: bool
  previousGamepack :: "string option"

definition Accept :: ValidationResult where
  "Accept = \<lparr>isValid = True, message = None, requiresConfirmation = False,
             previousGamepack = None\<rparr>"

definition Reject :: "string \<Rightarrow> ValidationResult" where
  "Reject msg = \<lparr>isValid = False, message = Some msg, requiresConfirmation = False,
                 previousGamepack = None\<rparr>"

definition RequiresConfirmation :: "string \<Rightarrow> string \<Rightarrow> ValidationResult" where
  "RequiresConfirmation prev msg =
     \<lparr>isValid = False, message = Some msg, requiresConfirmation = True,
      previousGamepack = Some prev\<rparr>"

text \<open>White space removed by \<open>trim\<close>, among the characters below 256.\<close>

definition isSpace :: "char \<Rightarrow> bool" where
  "isSpace c = (c \<in> set [CHR 0x09, CHR 0x0A, CHR 0x0B, CHR 0x0C, CHR 0x0D, CHR 0x20, CHR 0xA0])"

definition js_trim :: "string \<Rightarrow> string" where
  "js_trim s = rev (dropWhile isSpace (rev (dropWhile isSpace s)))"

text \<open>\<open>/^\d+$/.test(s)\<close>: one or more characters, all of them digits.\<close>

definition allDigits :: "string \<Rightarrow> bool" where
  "allDigits s = (s \<noteq> [] \<and> list_all isDigit s)"

text \<open>A number in a template literal: its decimal digits.\<close>

fun string_of_nat :: "nat \<Rightarrow> string" where
  "string_of_nat n =
     (if n < 10 then [char_of (48 + n)]
      else string_of_nat (n div 10) @ [char_of (48 + n mod 10)])"

declare string_of_nat.simps [simp del]

definition confirmMessage :: "string \<Rightarrow> nat \<Rightarrow> string" where
  "confirmMessage prev i =
     ''Was the previous pack ('' @ prev @ '') in Slot '' @ string_of_nat i
       @ '' completely sold out?''"

definition duplicateMessage :: "string \<Rightarrow> string" where
  "duplicateMessage gamepack =
     ''This gamepack ('' @ gamepack @ '') is already active in another slot today.''"

definition validateBarcode :: "clock \<Rightarrow> InventoryState \<Rightarrow> string \<Rightarrow> nat \<Rightarrow> ValidationResult" where
  "validateBarcode clk store code i =
     (if js_trim code = [] then Reject ''Please enter a barcode''
      else if length code < 14 then Reject ''Barcode must be at least 14 digits''
      else if \<not> allDigits code then Reject ''Barcode must contain only numbers''
      else
        (let gamepack = js_substring code 0 11;
             uniqueness = (if \<not> checkGamepackUniqueness clk gamepack store
                           then Reject (duplicateMessage gamepack)
                           else Accept)
         in if gamepack = emptyGamepack then Accept
            else
              (case getPreviousGamepack i store of
                 Some prev \<Rightarrow>
                   if prev \<noteq> [] \<and> prev \<noteq> emptyGamepack \<and> prev \<noteq> gamepack
                   then RequiresConfirmation prev (confirmMessage prev i)
                   else uniqueness
               | None \<Rightarrow> uniqueness)))"

subsection \<open>The uniqueness rule, in the words of the specification\<close>

text \<open>
  "Some slot other than the target slot holds that gamepack with a time stamp from today
  and \<open>soldOut\<close> false."
\<close>

definition activeInOtherSlot :: "clock \<Rightarrow> string \<Rightarrow> nat \<Rightarrow> InventoryState \<Rightarrow> bool" where
  "activeInOtherSlot clk gamepack i st =
     list_ex (\<lambda>s. slot_id s \<noteq> i \<and> activeToday clk gamepack s) (slots st)"

section \<open>Store operations as a transition system\<close>

datatype store_op =
    UpdateSlot nat string
  | ClearSlot nat
  | MarkAsEmpty nat
  | MarkAsSoldOut nat

fun target :: "store_op \<Rightarrow> nat" where
  "target (UpdateSlot i code) = i"
| "target (ClearSlot i) = i"
| "target (MarkAsEmpty i) = i"
| "target (MarkAsSoldOut i) = i"

fun applyOp :: "clock \<Rightarrow> store_op \<Rightarrow> InventoryState \<Rightarrow> InventoryState" where
  "applyOp clk (UpdateSlot i code) st = updateSlot clk i code st"
| "applyOp clk (ClearSlot i) st = clearSlot i st"
| "applyOp clk (MarkAsEmpty i) st = markAsEmpty clk i st"
| "applyOp clk (MarkAsSoldOut i) st = markAsSoldOut clk i st"

text \<open>
  The states of a run: \<open>initializeSlots\<close> first, then any number of store operations,
  each with its own slot id, barcode and clock reading.
\<close>

inductive reachable :: "InventoryState \<Rightarrow> bool" where
  init: "reachable (initializeSlots st0)"
| step: "reachable st \<Longrightarrow> reachable (applyOp clk op st)"

section \<open>Slot navigator (inventory screen, \<open>findNextAvailableSlot\<close>)\<close>

text \<open>
  \<^verbatim>\<open>
  const pendingSlot = slots.find(slot => slot.status === 'pending');
  if (pendingSlot) return pendingSlot.id;
  const unprocessedSlot = slots.find(slot => slot.barcode === null && slot.status === 'empty');
  if (unprocessedSlot) return unprocessedSlot.id;
  const nonScannedSlot = slots.find(slot => slot.status !== 'scanned');
  if (nonScannedSlot) return nonScannedSlot.id;
  return 1;
  \<close>
\<close>

definition findNextAvailableSlot :: "InventorySlot list \<Rightarrow> nat" where
  "findNextAvailableSlot sl =
     (case find (\<lambda>slot. status slot = Pending) sl of
        Some pendingSlot \<Rightarrow> slot_id pendingSlot
      | None \<Rightarrow>
          (case find (\<lambda>slot. barcode slot = None \<and> status slot = Empty) sl of
             Some unprocessedSlot \<Rightarrow> slot_id unprocessedSlot
           | None \<Rightarrow>
               (case find (\<lambda>slot. status slot \<noteq> Scanned) sl of
                  Some nonScannedSlot \<Rightarrow> slot_id nonScannedSlot
                | None \<Rightarrow> 1)))"

text \<open>
  The priority rule as the specification words it: "the first slot with \<open>P\<close>, if any" is
  the head of the sub-list of the slots with \<open>P\<close>, when some slot has \<open>P\<close>.
\<close>

definition slotNavigator_spec :: "InventorySlot list \<Rightarrow> nat" where
  "slotNavigator_spec sl =
     (if \<exists>s \<in> set sl. status s = Pending
        then slot_id (hd (filter (\<lambda>s. status s = Pending) sl))
      else if \<exists>s \<in> set sl. barcode s = None \<and> status s = Empty
        then slot_id (hd (filter (\<lambda>s. barcode s = None \<and> status s = Empty) sl))
      else if \<exists>s \<in> set sl. status s \<noteq> Scanned
        then slot_id (hd (filter (\<lambda>s. status s \<noteq> Scanned) sl))
      else 1)"

section \<open>Submit handlers of the two scanning screens\<close>

text \<open>
  \<open>analyzeRawBarcode\<close> of \<open>scannerUtils.ts\<close>: the diagnostic record of a raw scan.
\<close>

record barcode_analysis =
  rawLength :: nat
  cleanedBarcode :: string
  cleanedLength :: nat
  charCodes :: "nat list"
  controlChars :: "(nat \<times> nat) list"

definition analyzeRawBarcode :: "string \<Rightarrow> barcode_analysis" where
  "analyzeRawBarcode rawInput =
     (let cleaned = removeNonDigits rawInput;
          codes = map of_char rawInput
      in \<lparr>rawLength = length rawInput,
          cleanedBarcode = cleaned,
          cleanedLength = length cleaned,
          charCodes = codes,
          controlChars = filter (\<lambda>(code, position). code < 32 \<or> code = 127)
                           (zip codes [0..<length rawInput])\<rparr>)"

text \<open>
  A handler's run is recorded by the calls it makes to the validator and to the store, in
  order, the error text it leaves on the screen, and the store it leaves behind. Focus
  changes, animations and navigation are left out. The clock is read once per run.
\<close>

datatype call =
    CallValidateBarcode string nat
  | CallMarkAsSoldOut nat
  | CallUpdateSlot nat string

record submit_result =
  calls :: "call list"
  shownError :: "string option"
  newStore :: InventoryState

definition tooShortMessage :: "nat \<Rightarrow> string" where
  "tooShortMessage n = ''Barcode too short: '' @ string_of_nat n @ ''/14 digits minimum required''"

definition messageOr :: "string option \<Rightarrow> string \<Rightarrow> string" where
  "messageOr m d = (if truthy m then (case m of Some s \<Rightarrow> s | None \<Rightarrow> d) else d)"

text \<open>
  \<open>validateAndSubmit\<close> of the add screen. \<open>slotNumber\<close> is the result of
  \<open>parseInt(slotNumber, 10)\<close>, \<open>None\<close> for \<open>NaN\<close>; \<open>soldOutConfirmed\<close> is the
  operator's answer to the "Confirm Previous Pack Status" dialog, should it be shown.
\<close>

definition validateAndSubmit ::
  "clock \<Rightarrow> bool \<Rightarrow> int option \<Rightarrow> string \<Rightarrow> InventoryState \<Rightarrow> submit_result" where
  "validateAndSubmit clk soldOutConfirmed slotNumber cleaned store =
     (case slotNumber of
        None \<Rightarrow> \<lparr>calls = [], shownError = Some ''Please enter a valid slot number (1-20)'',
                 newStore = store\<rparr>
      | Some n \<Rightarrow>
          if n < 1 \<or> n > 20
          then \<lparr>calls = [], shownError = Some ''Please enter a valid slot number (1-20)'',
                newStore = store\<rparr>
          else
            (let slotId = nat n;
                 validationResult = validateBarcode clk store cleaned slotId
             in if \<not> isValid validationResult
                then if requiresConfirmation validationResult
                        \<and> truthy (previousGamepack validationResult)
                     then if soldOutConfirmed
                          then \<lparr>calls = [CallValidateBarcode cleaned slotId,
                                         CallMarkAsSoldOut slotId,
                                         CallUpdateSlot slotId cleaned],
                                shownError = None,
                                newStore = updateSlot clk slotId cleaned
                                             (markAsSoldOut clk slotId store)\<rparr>
                          else \<lparr>calls = [CallValidateBarcode cleaned slotId],
                                shownError = Some ''Previous pack must be sold out before adding a new pack'',
                                newStore = store\<rparr>
                     else \<lparr>calls = [CallValidateBarcode cleaned slotId],
                           shownError = Some (messageOr (message validationResult) ''Invalid barcode''),
                           newStore = store\<rparr>
                else \<lparr>calls = [CallValidateBarcode cleaned slotId, CallUpdateSlot slotId cleaned],
                      shownError = None,
                      newStore = updateSlot clk slotId cleaned store\<rparr>))"

text \<open>
  \<open>handleSubmit\<close> of the add screen, run on the accumulated buffer
  \<open>barcodeBufferRef.current\<close>. \<open>continueAnyway\<close> is the operator's answer to the
  "Incomplete Barcode" dialog, shown for 14 to 23 digits.
\<close>

definition handleSubmit ::
  "clock \<Rightarrow> bool \<Rightarrow> bool \<Rightarrow> int option \<Rightarrow> string \<Rightarrow> InventoryState \<Rightarrow> submit_result" where
  "handleSubmit clk continueAnyway soldOutConfirmed slotNumber buffer store =
     (if js_trim buffer = []
      then \<lparr>calls = [], shownError = Some ''Please enter a barcode'', newStore = store\<rparr>
      else
        (let analysis = analyzeRawBarcode buffer;
             cleaned = cleanedBarcode analysis
         in if length cleaned < 14
            then \<lparr>calls = [], shownError = Some (tooShortMessage (length cleaned)),
                  newStore = store\<rparr>
            else if length cleaned < 24 \<and> length cleaned \<ge> 14
            then if continueAnyway
                 then validateAndSubmit clk soldOutConfirmed slotNumber cleaned store
                 else \<lparr>calls = [],
                       shownError = Some ''Scan canceled. Please try again for complete barcode.'',
                       newStore = store\<rparr>
            else validateAndSubmit clk soldOutConfirmed slotNumber cleaned store))"

text \<open>
  \<open>handleSubmitScan\<close> of the inventory screen. \<open>scanInput\<close> and
  \<open>selectedSlotId\<close> are the state variables as the render that created the handler
  saw them. This screen asks no question: a result that requires confirmation is
  followed at once by \<open>markAsSoldOut\<close> and \<open>updateSlot\<close>.
\<close>

definition handleSubmitScan ::
  "clock \<Rightarrow> nat option \<Rightarrow> string \<Rightarrow> InventoryState \<Rightarrow> submit_result" where
  "handleSubmitScan clk selectedSlotId scanInput store =
     (case selectedSlotId of
        None \<Rightarrow> \<lparr>calls = [], shownError = Some ''No slot selected'', newStore = store\<rparr>
      | Some slotId \<Rightarrow>
          if slotId = 0
          then \<lparr>calls = [], shownError = Some ''No slot selected'', newStore = store\<rparr>
          else
            (let numericOnly = removeNonDigits scanInput
             in if numericOnly = []
                then \<lparr>calls = [], shownError = Some ''No numeric data detected in scan'',
                      newStore = store\<rparr>
                else if length numericOnly < 14
                then \<lparr>calls = [], shownError = Some (tooShortMessage (length numericOnly)),
                      newStore = store\<rparr>
                else
                  (let validationResult = validateBarcode clk store numericOnly slotId
                   in if \<not> isValid validationResult
                      then if requiresConfirmation validationResult
                              \<and> truthy (previousGamepack validationResult)
                           then \<lparr>calls = [CallValidateBarcode numericOnly slotId,
                                          CallMarkAsSoldOut slotId,
                                          CallUpdateSlot slotId numericOnly],
                                 shownError = None,
                                 newStore = updateSlot clk slotId numericOnly
                                              (markAsSoldOut clk slotId store)\<rparr>
                           else \<lparr>calls = [CallValidateBarcode numericOnly slotId],
                                 shownError = Some (messageOr (message validationResult)
                                                      ''Invalid barcode''),
                                 newStore = store\<rparr>
                      else \<lparr>calls = [CallValidateBarcode numericOnly slotId,
                                     CallUpdateSlot slotId numericOnly],
                            shownError = None,
                            newStore = updateSlot clk slotId numericOnly store\<rparr>)))"

subsection \<open>Change events, the auto-submit timer and the submit button\<close>

text \<open>
  Both screens are React function components. A handler reads a state variable
  (\<open>useState\<close>) as the render that created the handler saw it, and a ref
  (\<open>useRef\<close>) as it is when the handler runs. The timer armed by a change event calls
  the submit handler of the render in which the event arrived, so the pending timer is
  modelled by the state variables that handler closed over. A change event is followed by
  a render before the next event arrives. The screen's state after a run of the submit
  handler is not part of the model.
\<close>

definition emptyRun :: "InventoryState \<Rightarrow> submit_result" where
  "emptyRun store = \<lparr>calls = [], shownError = None, newStore = store\<rparr>"

text \<open>
  The add screen. \<open>barcodeBuffer\<close> is \<open>barcodeBufferRef.current\<close>, the raw text
  accumulated since the buffer was last reset; \<open>slotNumberState\<close> is the state variable
  \<open>slotNumber\<close> as \<open>parseInt\<close> reads it; \<open>addAutoSubmit\<close> is the pending timer,
  holding the \<open>slotNumber\<close> of the render that armed it.
\<close>

record AddScreen =
  barcodeBuffer :: string
  slotNumberState :: "int option"
  addAutoSubmit :: "int option option"

text \<open>
  \<^verbatim>\<open>
  barcodeBufferRef.current.includes('\n') || barcodeBufferRef.current.includes('\r') ||
  analysis.cleanedLength >= 24 || barcodeBufferRef.current.length >= 30
  \<close>
\<close>

definition scanComplete :: "string \<Rightarrow> bool" where
  "scanComplete buf =
     (CHR 0x0A \<in> set buf \<or> CHR 0x0D \<in> set buf
      \<or> cleanedLength (analyzeRawBarcode buf) \<ge> 24 \<or> length buf \<ge> 30)"

text \<open>
  \<open>handleBarcodeChange\<close>: the text of the event is appended to the buffer, a pending
  timer is cancelled, and a new one is armed when the buffer holds a complete scan.
\<close>

definition handleBarcodeChange :: "AddScreen \<Rightarrow> string \<Rightarrow> AddScreen" where
  "handleBarcodeChange scr text =
     (let buf = barcodeBuffer scr @ text
      in scr\<lparr>barcodeBuffer := buf,
             addAutoSubmit := (if scanComplete buf then Some (slotNumberState scr) else None)\<rparr>)"

text \<open>
  The timer fires: \<open>handleSubmit\<close> of the arming render runs on the buffer as it is
  now. The button "Add Ticket Pack" runs \<open>handleSubmit\<close> of the current render.
\<close>

definition addTimerFired ::
  "clock \<Rightarrow> bool \<Rightarrow> bool \<Rightarrow> AddScreen \<Rightarrow> InventoryState \<Rightarrow> submit_result" where
  "addTimerFired clk continueAnyway soldOutConfirmed scr store =
     (case addAutoSubmit scr of
        None \<Rightarrow> emptyRun store
      | Some capturedSlotNumber \<Rightarrow>
          handleSubmit clk continueAnyway soldOutConfirmed capturedSlotNumber
            (barcodeBuffer scr) store)"

definition addSubmitPressed ::
  "clock \<Rightarrow> bool \<Rightarrow> bool \<Rightarrow> AddScreen \<Rightarrow> InventoryState \<Rightarrow> submit_result" where
  "addSubmitPressed clk continueAnyway soldOutConfirmed scr store =
     handleSubmit clk continueAnyway soldOutConfirmed (slotNumberState scr)
       (barcodeBuffer scr) store"

text \<open>
  The inventory screen. \<open>scanInputState\<close> and \<open>selectedSlotIdState\<close> are the state
  variables \<open>scanInput\<close> and \<open>selectedSlotId\<close>; \<open>autoSubmitTimeout\<close> is the pending
  timer, holding the \<open>scanInput\<close> and \<open>selectedSlotId\<close> of the render that armed it.
  The input field is controlled by \<open>scanInput\<close>, so the text of a change event is the
  whole content of the field.
  \<^verbatim>\<open>
  const handleScanInputChange = (text: string) => {
    setScanInput(text);
    if (autoSubmitTimeoutRef.current) { clearTimeout(autoSubmitTimeoutRef.current); }
    if (text.includes('\n') || text.includes('\r')) {
      autoSubmitTimeoutRef.current = setTimeout(() => { handleSubmitScan(); }, scannerDelay);
    }
  };
  \<close>
\<close>

record InventoryScreen =
  scanInputState :: string
  selectedSlotIdState :: "nat option"
  autoSubmitTimeout :: "(string \<times> nat option) option"

definition handleScanInputChange :: "InventoryScreen \<Rightarrow> string \<Rightarrow> InventoryScreen" where
  "handleScanInputChange scr text =
     scr\<lparr>scanInputState := text,
         autoSubmitTimeout :=
           (if CHR 0x0A \<in> set text \<or> CHR 0x0D \<in> set text
            then Some (scanInputState scr, selectedSlotIdState scr)
            else None)\<rparr>"

text \<open>
  The timer fires: \<open>handleSubmitScan\<close> of the arming render runs, on the
  \<open>scanInput\<close> of that render, which is the text before the change event that armed the
  timer. The "Submit" button and the return key run \<open>handleSubmitScan\<close> of the current
  render, on the text of the last change event.
\<close>

definition inventoryTimerFired ::
  "clock \<Rightarrow> InventoryScreen \<Rightarrow> InventoryState \<Rightarrow> submit_result" where
  "inventoryTimerFired clk scr store =
     (case autoSubmitTimeout scr of
        None \<Rightarrow> emptyRun store
      | Some (capturedScanInput, capturedSlotId) \<Rightarrow>
          handleSubmitScan clk capturedSlotId capturedScanInput store)"

definition inventorySubmitPressed ::
  "clock \<Rightarrow> InventoryScreen \<Rightarrow> InventoryState \<Rightarrow> submit_result" where
  "inventorySubmitPressed clk scr store =
     handleSubmitScan clk (selectedSlotIdState scr) (scanInputState scr) store"

text \<open>The identifiers a run hands to the validator and to \<open>updateSlot\<close>.\<close>

fun handedIdentifiers :: "call list \<Rightarrow> string list" where
  "handedIdentifiers [] = []"
| "handedIdentifiers (CallValidateBarcode code i # cs) = code # handedIdentifiers cs"
| "handedIdentifiers (CallUpdateSlot i code # cs) = code # handedIdentifiers cs"
| "handedIdentifiers (CallMarkAsSoldOut i # cs) = handedIdentifiers cs"

section \<open>Example states\<close>

text \<open>
  A clock for a host whose calendar is UTC: the day of an ISO time stamp is told by its
  first ten characters, \<open>YYYY-MM-DD\<close>.
\<close>

definition utcClock :: "string \<Rightarrow> clock" where
  "utcClock now = \<lparr>isoNow = now, dateNow = take 10 now, toDateString = take 10\<rparr>"

definition exampleClock :: clock where
  "exampleClock = utcClock ''2026-01-05T09:00:00.000Z''"

text \<open>The store after start-up and one accepted scan of a pack into slot 7.\<close>

definition exampleStore :: InventoryState where
  "exampleStore = updateSlot exampleClock 7 ''12345678901234'' (initializeSlots initialState)"

text \<open>Both screens as opened for slot 3, before any input.\<close>

definition exampleAddScreen :: AddScreen where
  "exampleAddScreen = \<lparr>barcodeBuffer = [], slotNumberState = Some 3, addAutoSubmit = None\<rparr>"

definition exampleInventoryScreen :: InventoryScreen where
  "exampleInventoryScreen =
     \<lparr>scanInputState = [], selectedSlotIdState = Some 3, autoSubmitTimeout = None\<rparr>"

section \<open>Properties of the digit extractor\<close>

lemma lastChars_drop: "lastChars n s = drop (length s - n) s"
  by (simp add: lastChars_def take_rev)

lemma js_slice_neg: "0 < n \<Longrightarrow> js_slice s (- int n) = drop (length s - n) s"
proof -
  assume pos: "0 < n"
  have "nat (max (int (length s) - int n) 0) = length s - n" by simp
  with pos show ?thesis by (simp add: js_slice_def)
qed

lemma js_substring_prefix: "js_substring s 0 n = take n s"
proof (cases "n \<le> length s")
  case True
  then show ?thesis by (simp add: js_substring_def min_absorb1)
next
  case False
  then show ?thesis by (simp add: js_substring_def min_absorb2)
qed

lemma extract_eq_spec: "extractBarcodeIdentifier s = extractIdentifier_spec s"
proof -
  have a: "js_slice xs (- 24) = drop (length xs - 24) xs" for xs
    using js_slice_neg [of 24 xs] by simp
  have b: "js_slice xs (- 14) = drop (length xs - 14) xs" for xs
    using js_slice_neg [of 14 xs] by simp
  show ?thesis
    by (simp add: extractBarcodeIdentifier_def extractIdentifier_spec_def
        removeNonDigits_def Let_def a b js_substring_prefix lastChars_drop firstChars_def)
qed

lemma extract_spec_digits: "list_all isDigit (extractIdentifier_spec s)"
proof -
  have d: "list_all isDigit (filter isDigit s)"
    by (simp add: list_all_iff)
  have t: "list_all isDigit (take n xs)" if "list_all isDigit xs" for n xs
    using that by (auto simp: list_all_iff dest: in_set_takeD)
  have r: "list_all isDigit (drop n xs)" if "list_all isDigit xs" for n xs
    using that by (auto simp: list_all_iff dest: in_set_dropD)
  show ?thesis
    by (simp add: extractIdentifier_spec_def Let_def lastChars_drop firstChars_def d t r)
qed

lemma extract_spec_length: "length (extractIdentifier_spec s) \<le> 14"
  by (simp add: extractIdentifier_spec_def Let_def lastChars_drop firstChars_def)

text \<open>
  Claim C3. For every raw input, \<open>extractBarcodeIdentifier\<close> computes what the reference
  algorithm of the specification computes (delete the non-digits; with at least 24 digits
  the first 14 of the last 24; with more than 14 digits the last 14; otherwise the digits
  themselves). Hence its result consists of digits only, is at most 14 characters long, and
  the empty input is mapped to the empty string.
\<close>

theorem extractBarcodeIdentifier_reference:
  "extractBarcodeIdentifier rawInput = extractIdentifier_spec rawInput
   \<and> list_all isDigit (extractBarcodeIdentifier rawInput)
   \<and> length (extractBarcodeIdentifier rawInput) \<le> 14
   \<and> extractBarcodeIdentifier '''' = ''''"
proof -
  have "extractBarcodeIdentifier '''' = ''''"
    by (simp add: extractBarcodeIdentifier_def removeNonDigits_def)
  then show ?thesis
    by (simp add: extract_eq_spec extract_spec_digits extract_spec_length)
qed

theorem extractBarcodeIdentifier_reference_witness:
  "extractBarcodeIdentifier ''ab1234567890123456x'' = extractIdentifier_spec ''ab1234567890123456x''
   \<and> list_all isDigit (extractBarcodeIdentifier ''ab1234567890123456x'')
   \<and> length (extractBarcodeIdentifier ''ab1234567890123456x'') \<le> 14
   \<and> extractBarcodeIdentifier '''' = ''''"
  by (rule extractBarcodeIdentifier_reference)

text \<open>
  Claim C4. The worked scenario of the specification: the 26-digit scan
  \<open>12345000001234500001299988\<close>. Its last 24 digits are \<open>345000001234500001299988\<close>
  (the first two digits are dropped), and the first 14 of these are
  \<open>34500000123450\<close>; the string \<open>45000001234500\<close> is not what the extractor returns.
\<close>

theorem extract_scenario:
  "length ''12345000001234500001299988'' = 26
   \<and> js_slice (removeNonDigits ''12345000001234500001299988'') (- 24) = ''345000001234500001299988''
   \<and> extractBarcodeIdentifier ''12345000001234500001299988'' = ''34500000123450''"
  by (simp add: extractBarcodeIdentifier_def removeNonDigits_def isDigit_def
      js_slice_def js_substring_def)

theorem extract_scenario_witness:
  "length (extractBarcodeIdentifier ''12345000001234500001299988'') = 14"
  using extract_scenario by simp

text \<open>The result stated for the scenario, \<open>45000001234500\<close>, is not the one computed.\<close>

theorem extract_scenario_counterexample:
  "extractBarcodeIdentifier ''12345000001234500001299988'' \<noteq> ''45000001234500''"
  by (simp add: extractBarcodeIdentifier_def removeNonDigits_def isDigit_def
      js_slice_def js_substring_def)

section \<open>Properties of the validator\<close>

lemma digit_not_space: "isDigit c \<Longrightarrow> \<not> isSpace c"
  by (auto simp: isDigit_def isSpace_def)

lemma all_dropWhile: "(\<forall>x \<in> set (dropWhile P xs). P x) \<longleftrightarrow> (\<forall>x \<in> set xs. P x)"
  by (induction xs) auto

lemma js_trim_Nil_iff: "js_trim s = [] \<longleftrightarrow> list_all isSpace s"
  by (simp add: js_trim_def all_dropWhile list_all_iff)

lemma allDigits_trim: "allDigits s \<Longrightarrow> js_trim s \<noteq> []"
  by (cases s) (auto simp: js_trim_Nil_iff allDigits_def digit_not_space)

text \<open>Past the three format checks, the validator is its business rules.\<close>

lemma format_ok:
  assumes "allDigits code" "14 \<le> length code"
  shows "validateBarcode clk store code i =
     (let gamepack = take 11 code;
          uniqueness = (if \<not> checkGamepackUniqueness clk gamepack store
                        then Reject (duplicateMessage gamepack) else Accept)
      in if gamepack = emptyGamepack then Accept
         else (case getPreviousGamepack i store of
                 Some prev \<Rightarrow>
                   if prev \<noteq> [] \<and> prev \<noteq> emptyGamepack \<and> prev \<noteq> gamepack
                   then RequiresConfirmation prev (confirmMessage prev i)
                   else uniqueness
               | None \<Rightarrow> uniqueness))"
  using assms allDigits_trim [OF assms(1)]
  by (simp add: validateBarcode_def js_substring_prefix)

lemma Reject_not_Accept: "Reject msg \<noteq> Accept"
  by (simp add: Reject_def Accept_def)

text \<open>
  When the confirmation branch does not fire, the duplicate rejection is decided by
  \<open>slots.some\<close> over all slots, the target slot among them.
\<close>

lemma duplicate_reject_iff:
  assumes "allDigits code" "14 \<le> length code" "take 11 code \<noteq> emptyGamepack"
    and "getPreviousGamepack i store = None \<or> getPreviousGamepack i store = Some (take 11 code)"
  shows "validateBarcode clk store code i = Reject (duplicateMessage (take 11 code))
           \<longleftrightarrow> list_ex (activeToday clk (take 11 code)) (slots store)"
    and "validateBarcode clk store code i = Accept
           \<longleftrightarrow> \<not> list_ex (activeToday clk (take 11 code)) (slots store)"
  using assms
  by (auto simp: format_ok Let_def checkGamepackUniqueness_def Reject_not_Accept
      Reject_not_Accept [symmetric])

text \<open>
  The scenario of the uniqueness rule: once the only slot holding a gamepack today is
  marked sold out, no slot blocks the gamepack any more.
\<close>

lemma activeToday_soldOut: "\<not> activeToday clk g (s\<lparr>soldOut := True\<rparr>)"
  by (simp add: activeToday_def split: option.splits)

lemma soldOut_releases_gamepack:
  assumes "g \<noteq> []" "g \<noteq> emptyGamepack"
    and "find (\<lambda>s. slot_id s = a) (slots st) = Some sa" "gamepackNumber sa = Some g"
    and "\<forall>s \<in> set (slots st). slot_id s \<noteq> a \<longrightarrow> \<not> activeToday clk g s"
  shows "\<not> list_ex (activeToday clk g) (slots (markAsSoldOut clk' a st))"
  using assms
  by (auto simp: markAsSoldOut_def list_ex_iff activeToday_soldOut)

text \<open>
  Claim C1, at the input where the code departs from it. Slot 7 holds gamepack
  \<open>12345678901\<close>, scanned today and not sold out; no other slot holds it. Scanning the
  same pack into slot 7 again does not ask for confirmation (the previous gamepack equals
  the new one), and the validator rejects it with the duplicate-gamepack message although
  no slot other than the target holds the gamepack.
\<close>

theorem rescan_into_same_slot_rejected:
  "getPreviousGamepack 7 exampleStore = Some ''12345678901''
   \<and> \<not> activeInOtherSlot exampleClock ''12345678901'' 7 exampleStore
   \<and> validateBarcode exampleClock exampleStore ''12345678901234'' 7
       = Reject ''This gamepack (12345678901) is already active in another slot today.''"
  by code_simp

theorem rescan_into_same_slot_rejected_witness:
  "\<not> isValid (validateBarcode exampleClock exampleStore ''12345678901234'' 7)
   \<and> message (validateBarcode exampleClock exampleStore ''12345678901234'' 7)
       = Some ''This gamepack (12345678901) is already active in another slot today.''"
  using rescan_into_same_slot_rejected by (simp add: Reject_def)

text \<open>
  Claim C5. Let the identifier pass the format checks and let its first 11 digits \<open>G2\<close>
  differ from the sentinel. If the target slot holds a barcode and a gamepack \<open>G1\<close> that
  is neither the sentinel nor \<open>G2\<close>, the validator returns the result that requires
  confirmation, carrying \<open>G1\<close> and the prompt
  "Was the previous pack (\<open>G1\<close>) in Slot \<open>slotId\<close> completely sold out?".
  The validator is a function of the store's state to a result: it reads the store through
  \<open>getPreviousGamepack\<close> and \<open>checkGamepackUniqueness\<close> and returns no new state.
  A barcode or gamepack held by a slot is a non-empty string here, as the test
  \<open>!slot?.barcode\<close> of the source takes the empty string for an absent one.
\<close>

theorem confirmation_required:
  assumes "allDigits code" "14 \<le> length code" "take 11 code \<noteq> emptyGamepack"
    and "find (\<lambda>s. slot_id s = i) (slots store) = Some slot"
    and "barcode slot = Some b" "b \<noteq> []"
    and "gamepackNumber slot = Some g1" "g1 \<noteq> []" "g1 \<noteq> emptyGamepack" "g1 \<noteq> take 11 code"
  shows "validateBarcode clk store code i =
           RequiresConfirmation g1
             (''Was the previous pack ('' @ g1 @ '') in Slot '' @ string_of_nat i
                @ '' completely sold out?'')
         \<and> previousGamepack (validateBarcode clk store code i) = Some g1
         \<and> requiresConfirmation (validateBarcode clk store code i)
         \<and> \<not> isValid (validateBarcode clk store code i)"
proof -
  have "getPreviousGamepack i store = Some g1"
    using assms(4-9) by (simp add: getPreviousGamepack_def)
  with assms show ?thesis
    by (simp add: format_ok confirmMessage_def RequiresConfirmation_def)
qed

theorem confirmation_required_witness:
  "validateBarcode exampleClock exampleStore ''23456000001111'' 7 =
     RequiresConfirmation ''12345678901''
       ''Was the previous pack (12345678901) in Slot 7 completely sold out?''
   \<and> previousGamepack (validateBarcode exampleClock exampleStore ''23456000001111'' 7)
       = Some ''12345678901''"
proof -
  let ?slot = "\<lparr>slot_id = 7, status = Scanned, barcode = Some ''12345678901234'',
                timestamp = Some ''2026-01-05T09:00:00.000Z'',
                gamepackNumber = Some ''12345678901'', soldOut = False\<rparr>"
  have h1: "allDigits ''23456000001111''" by code_simp
  have h2: "14 \<le> length ''23456000001111''" by simp
  have h3: "take 11 ''23456000001111'' \<noteq> emptyGamepack" by code_simp
  have h4: "find (\<lambda>s. slot_id s = 7) (slots exampleStore) = Some ?slot" by code_simp
  have h5: "barcode ?slot = Some ''12345678901234''" by simp
  have h6: "''12345678901234'' \<noteq> []" by simp
  have h7: "gamepackNumber ?slot = Some ''12345678901''" by simp
  have h8: "''12345678901'' \<noteq> []" by simp
  have h9: "''12345678901'' \<noteq> emptyGamepack" by code_simp
  have h10: "''12345678901'' \<noteq> take 11 ''23456000001111''" by simp
  have n: "string_of_nat 7 = ''7''" by code_simp
  show ?thesis
    using confirmation_required [OF h1 h2 h3 h4 h5 h6 h7 h8 h9 h10, of exampleClock]
    by (simp add: n RequiresConfirmation_def)
qed

text \<open>
  Claim C6. An identifier of at least 14 characters that starts with the sentinel
  \<open>00000000000\<close> is accepted for every slot and every store state, provided all its
  characters are digits: the previous-pack check and the uniqueness check are not
  consulted. The digit check comes before the sentinel test, so a suffix with a non-digit
  is rejected.
\<close>

theorem sentinel_accepted:
  assumes "allDigits code" "14 \<le> length code" "take 11 code = ''00000000000''"
  shows "validateBarcode clk store code i = Accept"
  using assms by (simp add: format_ok emptyGamepack_def)

theorem sentinel_accepted_witness:
  "validateBarcode exampleClock exampleStore ''00000000000123'' 7 = Accept"
proof -
  have h1: "allDigits ''00000000000123''" by code_simp
  have h2: "14 \<le> length ''00000000000123''" by simp
  have h3: "take 11 ''00000000000123'' = ''00000000000''" by simp
  show ?thesis by (rule sentinel_accepted [OF h1 h2 h3])
qed

text \<open>A sentinel prefix with a suffix that is not made of digits is rejected.\<close>

theorem sentinel_nondigit_suffix_counterexample:
  "take 11 ''00000000000abc'' = ''00000000000''
   \<and> 14 \<le> length ''00000000000abc''
   \<and> validateBarcode exampleClock exampleStore ''00000000000abc'' 7
       = Reject ''Barcode must contain only numbers''
   \<and> validateBarcode exampleClock exampleStore ''00000000000abc'' 7 \<noteq> Accept"
  by code_simp

section \<open>Properties of the store operations\<close>

lemma map_keeps_ids:
  assumes "\<And>s. slot_id (f s) = slot_id s"
  shows "map slot_id (map f xs) = map slot_id xs"
  using assms by (induction xs) simp_all

lemma applyOp_ids: "map slot_id (slots (applyOp clk op st)) = map slot_id (slots st)"
proof (cases op)
  case (UpdateSlot i code)
  then show ?thesis by (simp add: updateSlot_def Let_def map_keeps_ids)
next
  case (ClearSlot i)
  then show ?thesis by (simp add: clearSlot_def map_keeps_ids)
next
  case (MarkAsEmpty i)
  then show ?thesis by (simp add: markAsEmpty_def map_keeps_ids)
next
  case (MarkAsSoldOut i)
  then show ?thesis
    by (simp add: markAsSoldOut_def map_keeps_ids split: option.splits)
qed

lemma applyOp_length: "length (slots (applyOp clk op st)) = length (slots st)"
  using applyOp_ids [of clk op st, THEN arg_cong, of length] by simp

lemma applyOp_frame:
  assumes "k < length (slots st)" "slot_id (slots st ! k) \<noteq> target op"
  shows "slots (applyOp clk op st) ! k = slots st ! k"
proof (cases op)
  case (UpdateSlot i code)
  with assms show ?thesis by (simp add: updateSlot_def Let_def)
next
  case (ClearSlot i)
  with assms show ?thesis by (simp add: clearSlot_def)
next
  case (MarkAsEmpty i)
  with assms show ?thesis by (simp add: markAsEmpty_def)
next
  case (MarkAsSoldOut i)
  with assms show ?thesis
    by (simp add: markAsSoldOut_def split: option.splits)
qed

lemma initializeSlots_ids: "map slot_id (slots (initializeSlots st0)) = [1..<21]"
proof -
  have "map slot_id (slots (initializeSlots st0)) = map Suc [0..<20]"
    by (simp add: initializeSlots_def comp_def)
  also have "\<dots> = [1..<21]"
    by (simp only: map_Suc_upt) simp
  finally show ?thesis .
qed

lemma reachable_ids: "reachable st \<Longrightarrow> map slot_id (slots st) = [1..<21]"
  by (induction rule: reachable.induct) (simp_all add: initializeSlots_ids applyOp_ids)

lemma initializeSlots_slots:
  "length (slots (initializeSlots st0)) = 20
   \<and> (\<forall>k < 20. slots (initializeSlots st0) ! k =
         \<lparr>slot_id = k + 1, status = Empty, barcode = None, timestamp = None,
          gamepackNumber = None, soldOut = False\<rparr>)"
  by (simp add: initializeSlots_def)

text \<open>
  Claim C9. \<open>initializeSlots\<close> builds 20 slots numbered 1 to 20, each with status
  \<open>Empty\<close>, no barcode, gamepack or time stamp, and \<open>soldOut\<close> false. In every state
  of a run that starts with it there are 20 slots whose ids are 1 to 20 in order. Every store operation (\<open>updateSlot\<close>, \<open>clearSlot\<close>,
  \<open>markAsEmpty\<close>, \<open>markAsSoldOut\<close>) keeps the 20 slots and their ids in place and
  leaves every slot other than the one with the given id as it was.
\<close>

theorem slots_fixed:
  assumes "reachable st"
  shows "length (slots st) = 20
       \<and> map slot_id (slots st) = [1..<21]
       \<and> (\<forall>clk op.
             length (slots (applyOp clk op st)) = 20
           \<and> map slot_id (slots (applyOp clk op st)) = [1..<21]
           \<and> (\<forall>k < 20. slot_id (slots st ! k) \<noteq> target op
                  \<longrightarrow> slots (applyOp clk op st) ! k = slots st ! k))
       \<and> length (slots (initializeSlots st0)) = 20
       \<and> (\<forall>k < 20. slots (initializeSlots st0) ! k =
             \<lparr>slot_id = k + 1, status = Empty, barcode = None, timestamp = None,
              gamepackNumber = None, soldOut = False\<rparr>)"
proof -
  have ids: "map slot_id (slots st) = [1..<21]"
    using assms by (rule reachable_ids)
  have "length (map slot_id (slots st)) = length [1..<(21::nat)]"
    by (simp only: ids)
  then have len: "length (slots st) = 20" by simp
  have a: "length (slots (applyOp clk op st)) = 20" for clk op
    by (simp only: applyOp_length len)
  have b: "map slot_id (slots (applyOp clk op st)) = [1..<21]" for clk op
    by (simp only: applyOp_ids ids)
  have c: "slots (applyOp clk op st) ! k = slots st ! k"
    if "k < 20" "slot_id (slots st ! k) \<noteq> target op" for clk op k
    using that len by (simp add: applyOp_frame)
  note d = initializeSlots_slots [of st0]
  from ids len a b c d show ?thesis by blast
qed

theorem slots_fixed_witness:
  "reachable exampleStore
   \<and> length (slots exampleStore) = 20
   \<and> map slot_id (slots exampleStore) = [1..<21]
   \<and> slots (applyOp exampleClock (MarkAsEmpty 7) exampleStore) ! 2 = slots exampleStore ! 2"
proof -
  have "reachable (applyOp exampleClock (UpdateSlot 7 ''12345678901234'')
                     (initializeSlots initialState))"
    by (rule reachable.step [OF reachable.init])
  then have r: "reachable exampleStore"
    by (simp add: exampleStore_def)
  have h: "slot_id (slots exampleStore ! 2) \<noteq> target (MarkAsEmpty 7)"
    by code_simp
  note t = slots_fixed [OF r]
  from t have "\<forall>k < 20. slot_id (slots exampleStore ! k) \<noteq> target (MarkAsEmpty 7)
                 \<longrightarrow> slots (applyOp exampleClock (MarkAsEmpty 7) exampleStore) ! k
                      = slots exampleStore ! k"
    by blast
  from this [THEN spec, of 2] h
  have f: "slots (applyOp exampleClock (MarkAsEmpty 7) exampleStore) ! 2 = slots exampleStore ! 2"
    by simp
  from t r f show ?thesis by blast
qed

text \<open>
  Claim C10. \<open>markAsEmpty\<close> gives the slot with the given id the status \<open>Empty\<close>,
  the barcode \<open>00000000000000\<close>, the gamepack \<open>00000000000\<close> and the current
  instant as time stamp, and nothing else: the slot keeps its id and its \<open>soldOut\<close>
  flag, every other slot is unchanged, and so are the ledger of sold-out packs and the
  selected slot.
\<close>

theorem markAsEmpty_frame:
  "length (slots (markAsEmpty clk i st)) = length (slots st)
   \<and> soldOutPacks (markAsEmpty clk i st) = soldOutPacks st
   \<and> selectedSlot (markAsEmpty clk i st) = selectedSlot st
   \<and> (\<forall>k < length (slots st).
         (slot_id (slots st ! k) = i \<longrightarrow>
            slots (markAsEmpty clk i st) ! k =
              (slots st ! k)\<lparr>status := Empty, barcode := Some ''00000000000000'',
                              gamepackNumber := Some ''00000000000'',
                              timestamp := Some (isoNow clk)\<rparr>
            \<and> soldOut (slots (markAsEmpty clk i st) ! k) = soldOut (slots st ! k)
            \<and> slot_id (slots (markAsEmpty clk i st) ! k) = i)
       \<and> (slot_id (slots st ! k) \<noteq> i \<longrightarrow>
            slots (markAsEmpty clk i st) ! k = slots st ! k))"
  by (simp add: markAsEmpty_def emptyBarcode_def emptyGamepack_def)

theorem markAsEmpty_frame_witness:
  "soldOut (slots (markAsSoldOut exampleClock 7 exampleStore) ! 6)
   \<and> soldOut (slots (markAsEmpty exampleClock 7 (markAsSoldOut exampleClock 7 exampleStore)) ! 6)
   \<and> status (slots (markAsEmpty exampleClock 7 (markAsSoldOut exampleClock 7 exampleStore)) ! 6)
       = Empty
   \<and> slots (markAsEmpty exampleClock 7 (markAsSoldOut exampleClock 7 exampleStore)) ! 2
       = slots (markAsSoldOut exampleClock 7 exampleStore) ! 2"
proof -
  let ?st = "markAsSoldOut exampleClock 7 exampleStore"
  have h1: "6 < length (slots ?st)" by code_simp
  have h2: "slot_id (slots ?st ! 6) = 7" by code_simp
  have h3: "soldOut (slots ?st ! 6)" by code_simp
  have h4: "2 < length (slots ?st)" by code_simp
  have h5: "slot_id (slots ?st ! 2) \<noteq> 7" by code_simp
  show ?thesis
    using markAsEmpty_frame [where clk = exampleClock and i = 7 and st = ?st] h1 h2 h3 h4 h5
    by simp
qed

lemma gameData_default: "gameData ''default'' = Some defaultGame"
  by (simp add: gameData_def)

text \<open>
  Claim C7. \<open>markAsSoldOut\<close> returns the state it was given when no slot has the id,
  or when the slot's gamepack is absent (\<open>null\<close> or the empty string) or the sentinel
  \<open>00000000000\<close>; the model is a total function, as the source has no failing step.
  Otherwise it sets \<open>soldOut\<close> of the slot with that id and appends exactly one record
  to the ledger, for that gamepack, slot and instant, whose game name, price and type are
  the catalog entry of the gamepack's first five characters, or
  "Unknown Game" / "N/A" / "Scratch-off" when the catalog has none.
\<close>

theorem markAsSoldOut_effect:
  "(find (\<lambda>s. slot_id s = i) (slots st) = None \<longrightarrow> markAsSoldOut clk i st = st)
   \<and> (\<forall>slot. find (\<lambda>s. slot_id s = i) (slots st) = Some slot
          \<and> (gamepackNumber slot = None \<or> gamepackNumber slot = Some []
               \<or> gamepackNumber slot = Some ''00000000000'')
        \<longrightarrow> markAsSoldOut clk i st = st)
   \<and> (\<forall>slot g. find (\<lambda>s. slot_id s = i) (slots st) = Some slot
          \<and> gamepackNumber slot = Some g \<and> g \<noteq> [] \<and> g \<noteq> ''00000000000''
        \<longrightarrow> slots (markAsSoldOut clk i st)
              = map (\<lambda>s. if slot_id s = i then s\<lparr>soldOut := True\<rparr> else s) (slots st)
          \<and> selectedSlot (markAsSoldOut clk i st) = selectedSlot st
          \<and> (\<exists>p. soldOutPacks (markAsSoldOut clk i st) = soldOutPacks st @ [p]
                \<and> pack_gamepackNumber p = g
                \<and> pack_slotId p = i
                \<and> soldOutDate p = isoNow clk
                \<and> pack_id p = g @ ''-'' @ isoNow clk
                \<and> (case gameData (take 5 g) of
                      Some info \<Rightarrow> gameName p = name info \<and> price p = info_price info
                                    \<and> pack_type p = info_type info
                    | None \<Rightarrow> gameName p = ''Unknown Game'' \<and> price p = ''N/A''
                               \<and> pack_type p = ''Scratch-off'')))"
  by (auto simp: markAsSoldOut_def newSoldOutPack_def getGameInfo_def js_substring_prefix
      emptyGamepack_def gameData_default defaultGame_def Let_def split: option.splits)

theorem markAsSoldOut_effect_witness:
  "markAsSoldOut exampleClock 3 exampleStore = exampleStore
   \<and> (\<exists>p. soldOutPacks (markAsSoldOut exampleClock 7 exampleStore)
              = soldOutPacks exampleStore @ [p]
          \<and> pack_gamepackNumber p = ''12345678901''
          \<and> gameName p = ''Lucky 7s'' \<and> price p = ''$5'' \<and> pack_type p = ''Scratch-off'')"
proof -
  let ?slot3 = "\<lparr>slot_id = 3, status = Empty, barcode = None, timestamp = None,
                 gamepackNumber = None, soldOut = False\<rparr>"
  let ?slot7 = "\<lparr>slot_id = 7, status = Scanned, barcode = Some ''12345678901234'',
                 timestamp = Some ''2026-01-05T09:00:00.000Z'',
                 gamepackNumber = Some ''12345678901'', soldOut = False\<rparr>"
  have f3: "find (\<lambda>s. slot_id s = 3) (slots exampleStore) = Some ?slot3" by code_simp
  have f7: "find (\<lambda>s. slot_id s = 7) (slots exampleStore) = Some ?slot7" by code_simp
  have cat: "gameData (take 5 ''12345678901'')
               = Some \<lparr>name = ''Lucky 7s'', info_price = ''$5'', info_type = ''Scratch-off''\<rparr>"
    by (simp add: gameData_def)
  have a: "markAsSoldOut exampleClock 3 exampleStore = exampleStore"
    using markAsSoldOut_effect [where clk = exampleClock and i = 3 and st = exampleStore] f3
    by simp
  have b: "\<exists>p. soldOutPacks (markAsSoldOut exampleClock 7 exampleStore)
              = soldOutPacks exampleStore @ [p]
          \<and> pack_gamepackNumber p = ''12345678901''
          \<and> gameName p = ''Lucky 7s'' \<and> price p = ''$5'' \<and> pack_type p = ''Scratch-off''"
    using markAsSoldOut_effect [where clk = exampleClock and i = 7 and st = exampleStore] f7 cat
    by auto
  from a b show ?thesis by simp
qed

section \<open>Properties of the slot navigator\<close>

lemma find_hd_filter:
  "find P xs = (if \<exists>x \<in> set xs. P x then Some (hd (filter P xs)) else None)"
  by (induction xs) auto

lemma find_case:
  "(case find P xs of Some x \<Rightarrow> f x | None \<Rightarrow> d)
     = (if \<exists>x \<in> set xs. P x then f (hd (filter P xs)) else d)"
  by (simp add: find_hd_filter)

text \<open>
  Claim C8. For every slot collection the navigator returns the id chosen by the strict
  priority of the specification: the first slot with status \<open>Pending\<close> if there is one;
  else the first slot with no barcode and status \<open>Empty\<close>; else the first slot whose
  status is not \<open>Scanned\<close>; else 1, when every slot is \<open>Scanned\<close>.
\<close>

theorem navigator_priority: "findNextAvailableSlot sl = slotNavigator_spec sl"
  by (simp only: findNextAvailableSlot_def slotNavigator_spec_def find_case)

theorem navigator_priority_witness:
  "findNextAvailableSlot (slots (markAsEmpty exampleClock 1 exampleStore)) = 2
   \<and> slotNavigator_spec (slots (markAsEmpty exampleClock 1 exampleStore)) = 2"
proof -
  have e: "findNextAvailableSlot (slots (markAsEmpty exampleClock 1 exampleStore)) = 2"
    by code_simp
  show ?thesis
    using navigator_priority [of "slots (markAsEmpty exampleClock 1 exampleStore)"] e
    by simp
qed

section \<open>Properties of the submit handlers\<close>

lemma validateAndSubmit_handed:
  "c \<in> set (handedIdentifiers (calls (validateAndSubmit clk conf slotNumber cleaned store)))
     \<Longrightarrow> c = cleaned"
  by (auto simp: validateAndSubmit_def Let_def split: option.splits if_splits)

lemma handleSubmit_handed:
  "c \<in> set (handedIdentifiers (calls (handleSubmit clk cont conf slotNumber buffer store)))
     \<Longrightarrow> c = removeNonDigits buffer"
  by (auto simp: handleSubmit_def analyzeRawBarcode_def Let_def
      dest: validateAndSubmit_handed split: if_splits)

lemma handleSubmitScan_handed:
  "c \<in> set (handedIdentifiers (calls (handleSubmitScan clk sel scanInput store)))
     \<Longrightarrow> c = removeNonDigits scanInput"
  by (auto simp: handleSubmitScan_def Let_def split: option.splits if_splits)

lemma digits_trim:
  assumes "removeNonDigits s \<noteq> []"
  shows "js_trim s \<noteq> []"
proof -
  from assms obtain c where "c \<in> set s" "isDigit c"
    by (auto simp: removeNonDigits_def filter_empty_conv)
  then have "\<not> list_all isSpace s"
    by (auto simp: list_all_iff dest: digit_not_space)
  then show ?thesis by (simp add: js_trim_Nil_iff)
qed

lemma validateAndSubmit_validates:
  assumes "1 \<le> n" "n \<le> 20"
  shows "CallValidateBarcode cleaned (nat n)
           \<in> set (calls (validateAndSubmit clk conf (Some n) cleaned store))"
  using assms by (simp add: validateAndSubmit_def Let_def)

lemma handleSubmit_validates:
  assumes "14 \<le> length (removeNonDigits buffer)"
    and "24 \<le> length (removeNonDigits buffer) \<or> cont"
    and "1 \<le> n" "n \<le> 20"
  shows "CallValidateBarcode (removeNonDigits buffer) (nat n)
           \<in> set (calls (handleSubmit clk cont conf (Some n) buffer store))"
proof -
  from assms(1) have "removeNonDigits buffer \<noteq> []" by auto
  then have "js_trim buffer \<noteq> []" by (rule digits_trim)
  with assms show ?thesis
    by (auto simp: handleSubmit_def analyzeRawBarcode_def Let_def
        validateAndSubmit_validates)
qed

lemma handleSubmitScan_validates:
  assumes "14 \<le> length (removeNonDigits scanInput)" "i \<noteq> 0"
  shows "CallValidateBarcode (removeNonDigits scanInput) i
           \<in> set (calls (handleSubmitScan clk (Some i) scanInput store))"
proof -
  from assms(1) have "removeNonDigits scanInput \<noteq> []" by auto
  with assms show ?thesis
    by (simp add: handleSubmitScan_def Let_def)
qed

subsection \<open>The screens after a sequence of change events\<close>

lemma add_buffer_after:
  "barcodeBuffer (foldl handleBarcodeChange scr ts) = barcodeBuffer scr @ concat ts"
  by (induction ts arbitrary: scr) (simp_all add: handleBarcodeChange_def Let_def)

lemma add_slot_after:
  "slotNumberState (foldl handleBarcodeChange scr ts) = slotNumberState scr"
  by (induction ts arbitrary: scr) (simp_all add: handleBarcodeChange_def Let_def)

lemma add_timer_after:
  assumes "ts \<noteq> []"
  shows "addAutoSubmit (foldl handleBarcodeChange scr ts)
           = (if scanComplete (barcodeBuffer scr @ concat ts)
              then Some (slotNumberState scr) else None)"
proof -
  from assms obtain us t where ts: "ts = us @ [t]"
    by (cases ts rule: rev_cases) auto
  show ?thesis
    by (simp add: ts handleBarcodeChange_def Let_def add_buffer_after add_slot_after)
qed

lemma inventory_input_after:
  "scanInputState (foldl handleScanInputChange scr (ts @ [t])) = t"
  by (simp add: handleScanInputChange_def)

lemma inventory_slot_after:
  "selectedSlotIdState (foldl handleScanInputChange scr ts) = selectedSlotIdState scr"
  by (induction ts arbitrary: scr) (simp_all add: handleScanInputChange_def)

lemma addTimerFired_handed:
  "c \<in> set (handedIdentifiers (calls (addTimerFired clk cont conf scr store)))
     \<Longrightarrow> c = removeNonDigits (barcodeBuffer scr)"
  by (auto simp: addTimerFired_def emptyRun_def dest: handleSubmit_handed
      split: option.splits)

text \<open>
  The timer of the inventory screen runs the handler on the text the field held before
  the change event that armed it, not on the text of that event.
\<close>

lemma inventoryTimerFired_stale:
  assumes "CHR 0x0A \<in> set t \<or> CHR 0x0D \<in> set t"
  shows "inventoryTimerFired clk (handleScanInputChange scr t) store
           = handleSubmitScan clk (selectedSlotIdState scr) (scanInputState scr) store"
  using assms by (auto simp: inventoryTimerFired_def handleScanInputChange_def)

lemma inventory_timer_one_event:
  "calls (inventoryTimerFired exampleClock
            (handleScanInputChange exampleInventoryScreen
               (''12345000001234500001299988'' @ [CHR 0x0A])) exampleStore) = []
   \<and> shownError (inventoryTimerFired exampleClock
            (handleScanInputChange exampleInventoryScreen
               (''12345000001234500001299988'' @ [CHR 0x0A])) exampleStore)
       = Some ''No numeric data detected in scan''"
  by code_simp

text \<open>
  Claim C2. On the add screen, whether the auto-submit timer fires or the operator
  submits by hand, and on the inventory screen when the operator submits by hand, the
  identifier handed to \<open>validateBarcode\<close> and to \<open>updateSlot\<close> is the digit-cleaned
  buffer: every digit of the raw text accumulated by the change events, in order and
  without truncation to 14 digits. It is not \<open>extractBarcodeIdentifier\<close> of that text,
  which neither handler calls. With at least 14 digits and a valid slot the validator is
  called with it. On the add screen the accumulated text is the buffer before the events
  followed by the texts of the events; on the inventory screen it is the content of the
  input field, the text of the last event.
\<close>

theorem submit_hands_cleaned_digits:
  "(\<forall>c \<in> set (handedIdentifiers (calls
         (addTimerFired clk cont conf (foldl handleBarcodeChange scr ts) store))).
       c = removeNonDigits (barcodeBuffer scr @ concat ts))
   \<and> (\<forall>c \<in> set (handedIdentifiers (calls
         (addSubmitPressed clk cont conf (foldl handleBarcodeChange scr ts) store))).
       c = removeNonDigits (barcodeBuffer scr @ concat ts))
   \<and> (\<forall>c \<in> set (handedIdentifiers (calls
         (inventorySubmitPressed clk (foldl handleScanInputChange iscr (us @ [t])) store))).
       c = removeNonDigits t)
   \<and> (ts \<noteq> [] \<and> scanComplete (barcodeBuffer scr @ concat ts)
        \<and> 14 \<le> length (removeNonDigits (barcodeBuffer scr @ concat ts))
        \<and> (24 \<le> length (removeNonDigits (barcodeBuffer scr @ concat ts)) \<or> cont)
        \<and> slotNumberState scr = Some n \<and> 1 \<le> n \<and> n \<le> 20
      \<longrightarrow> CallValidateBarcode (removeNonDigits (barcodeBuffer scr @ concat ts)) (nat n)
            \<in> set (calls (addTimerFired clk cont conf (foldl handleBarcodeChange scr ts) store)))
   \<and> (14 \<le> length (removeNonDigits (barcodeBuffer scr @ concat ts))
        \<and> (24 \<le> length (removeNonDigits (barcodeBuffer scr @ concat ts)) \<or> cont)
        \<and> slotNumberState scr = Some n \<and> 1 \<le> n \<and> n \<le> 20
      \<longrightarrow> CallValidateBarcode (removeNonDigits (barcodeBuffer scr @ concat ts)) (nat n)
            \<in> set (calls (addSubmitPressed clk cont conf (foldl handleBarcodeChange scr ts) store)))
   \<and> (14 \<le> length (removeNonDigits t) \<and> selectedSlotIdState iscr = Some i \<and> i \<noteq> 0
      \<longrightarrow> CallValidateBarcode (removeNonDigits t) i
            \<in> set (calls (inventorySubmitPressed clk
                             (foldl handleScanInputChange iscr (us @ [t])) store)))"
proof (intro conjI ballI impI)
  fix c
  assume "c \<in> set (handedIdentifiers (calls
            (addTimerFired clk cont conf (foldl handleBarcodeChange scr ts) store)))"
  then have "c = removeNonDigits (barcodeBuffer (foldl handleBarcodeChange scr ts))"
    by (rule addTimerFired_handed)
  then show "c = removeNonDigits (barcodeBuffer scr @ concat ts)"
    by (simp only: add_buffer_after)
next
  fix c
  assume "c \<in> set (handedIdentifiers (calls
            (addSubmitPressed clk cont conf (foldl handleBarcodeChange scr ts) store)))"
  then have "c = removeNonDigits (barcodeBuffer (foldl handleBarcodeChange scr ts))"
    unfolding addSubmitPressed_def by (rule handleSubmit_handed)
  then show "c = removeNonDigits (barcodeBuffer scr @ concat ts)"
    by (simp only: add_buffer_after)
next
  fix c
  assume "c \<in> set (handedIdentifiers (calls
            (inventorySubmitPressed clk (foldl handleScanInputChange iscr (us @ [t])) store)))"
  then have "c = removeNonDigits (scanInputState (foldl handleScanInputChange iscr (us @ [t])))"
    unfolding inventorySubmitPressed_def by (rule handleSubmitScan_handed)
  then show "c = removeNonDigits t"
    by (simp only: inventory_input_after)
next
  assume h: "ts \<noteq> [] \<and> scanComplete (barcodeBuffer scr @ concat ts)
        \<and> 14 \<le> length (removeNonDigits (barcodeBuffer scr @ concat ts))
        \<and> (24 \<le> length (removeNonDigits (barcodeBuffer scr @ concat ts)) \<or> cont)
        \<and> slotNumberState scr = Some n \<and> 1 \<le> n \<and> n \<le> 20"
  then have armed: "addAutoSubmit (foldl handleBarcodeChange scr ts) = Some (Some n)"
    by (simp add: add_timer_after)
  from h have "CallValidateBarcode (removeNonDigits (barcodeBuffer scr @ concat ts)) (nat n)
      \<in> set (calls (handleSubmit clk cont conf (Some n) (barcodeBuffer scr @ concat ts) store))"
    by (intro handleSubmit_validates) simp_all
  then show "CallValidateBarcode (removeNonDigits (barcodeBuffer scr @ concat ts)) (nat n)
      \<in> set (calls (addTimerFired clk cont conf (foldl handleBarcodeChange scr ts) store))"
    by (simp add: addTimerFired_def armed add_buffer_after)
next
  assume h: "14 \<le> length (removeNonDigits (barcodeBuffer scr @ concat ts))
        \<and> (24 \<le> length (removeNonDigits (barcodeBuffer scr @ concat ts)) \<or> cont)
        \<and> slotNumberState scr = Some n \<and> 1 \<le> n \<and> n \<le> 20"
  then have "CallValidateBarcode (removeNonDigits (barcodeBuffer scr @ concat ts)) (nat n)
      \<in> set (calls (handleSubmit clk cont conf (Some n) (barcodeBuffer scr @ concat ts) store))"
    by (intro handleSubmit_validates) simp_all
  with h show "CallValidateBarcode (removeNonDigits (barcodeBuffer scr @ concat ts)) (nat n)
      \<in> set (calls (addSubmitPressed clk cont conf (foldl handleBarcodeChange scr ts) store))"
    by (simp add: addSubmitPressed_def add_buffer_after add_slot_after)
next
  assume h: "14 \<le> length (removeNonDigits t) \<and> selectedSlotIdState iscr = Some i \<and> i \<noteq> 0"
  then have "CallValidateBarcode (removeNonDigits t) i
      \<in> set (calls (handleSubmitScan clk (Some i) t store))"
    by (intro handleSubmitScan_validates) simp_all
  with h show "CallValidateBarcode (removeNonDigits t) i
      \<in> set (calls (inventorySubmitPressed clk
                       (foldl handleScanInputChange iscr (us @ [t])) store))"
    by (simp only: inventorySubmitPressed_def inventory_input_after inventory_slot_after)
qed

theorem submit_hands_cleaned_digits_witness:
  "CallValidateBarcode ''12345000001234500001299988'' 3
     \<in> set (calls (addTimerFired exampleClock False True
                     (foldl handleBarcodeChange exampleAddScreen
                        [''12345-0000012345'', ''00001299988'' @ [CHR 0x0A]]) exampleStore))
   \<and> CallValidateBarcode ''12345000001234500001299988'' 3
     \<in> set (calls (addSubmitPressed exampleClock False True
                     (foldl handleBarcodeChange exampleAddScreen
                        [''12345-0000012345'', ''00001299988'' @ [CHR 0x0A]]) exampleStore))
   \<and> CallValidateBarcode ''12345000001234500001299988'' 3
     \<in> set (calls (inventorySubmitPressed exampleClock
                     (foldl handleScanInputChange exampleInventoryScreen
                        ([''12345-0000012345''] @ [''12345-000001234500001299988'']))
                     exampleStore))"
proof -
  let ?ts = "[''12345-0000012345'', ''00001299988'' @ [CHR 0x0A]]"
  let ?t = "''12345-000001234500001299988''"
  have b: "barcodeBuffer exampleAddScreen @ concat ?ts
             = ''12345-000001234500001299988'' @ [CHR 0x0A]"
    by (simp add: exampleAddScreen_def)
  have d: "removeNonDigits (''12345-000001234500001299988'' @ [CHR 0x0A])
             = ''12345000001234500001299988''"
    by code_simp
  have d': "removeNonDigits ?t = ''12345000001234500001299988''" by code_simp
  have h1: "?ts \<noteq> []" by simp
  have h2: "scanComplete (''12345-000001234500001299988'' @ [CHR 0x0A])" by code_simp
  have h3: "slotNumberState exampleAddScreen = Some 3"
    by (simp add: exampleAddScreen_def)
  have h4: "selectedSlotIdState exampleInventoryScreen = Some 3"
    by (simp add: exampleInventoryScreen_def)
  have p4: "?ts \<noteq> [] \<and> scanComplete (barcodeBuffer exampleAddScreen @ concat ?ts)
      \<and> 14 \<le> length (removeNonDigits (barcodeBuffer exampleAddScreen @ concat ?ts))
      \<and> (24 \<le> length (removeNonDigits (barcodeBuffer exampleAddScreen @ concat ?ts)) \<or> False)
      \<and> slotNumberState exampleAddScreen = Some 3 \<and> (1::int) \<le> 3 \<and> (3::int) \<le> 20"
    unfolding b d using h1 h2 h3 by simp
  then have p5: "14 \<le> length (removeNonDigits (barcodeBuffer exampleAddScreen @ concat ?ts))
      \<and> (24 \<le> length (removeNonDigits (barcodeBuffer exampleAddScreen @ concat ?ts)) \<or> False)
      \<and> slotNumberState exampleAddScreen = Some 3 \<and> (1::int) \<le> 3 \<and> (3::int) \<le> 20"
    by blast
  have p6: "14 \<le> length (removeNonDigits ?t)
      \<and> selectedSlotIdState exampleInventoryScreen = Some 3 \<and> (3::nat) \<noteq> 0"
    unfolding d' using h4 by simp
  note t = submit_hands_cleaned_digits [where scr = exampleAddScreen and ts = ?ts
      and iscr = exampleInventoryScreen and us = "[''12345-0000012345'']" and t = ?t
      and cont = False and conf = True and n = 3 and i = 3 and clk = exampleClock
      and store = exampleStore]
  note c4 = t [THEN conjunct2, THEN conjunct2, THEN conjunct2, THEN conjunct1, THEN mp, OF p4]
  note c5 = t [THEN conjunct2, THEN conjunct2, THEN conjunct2, THEN conjunct2, THEN conjunct1,
      THEN mp, OF p5]
  note c6 = t [THEN conjunct2, THEN conjunct2, THEN conjunct2, THEN conjunct2, THEN conjunct2,
      THEN mp, OF p6]
  from c4 [unfolded b d] c5 [unfolded b d] c6 [unfolded d'] show ?thesis
    by simp
qed

text \<open>
  The 26-digit scan on both screens: the identifier handed on is the 26 digits, which is
  not what the extractor makes of them.
\<close>

theorem submit_not_extracted_counterexample:
  "handedIdentifiers (calls (addTimerFired exampleClock True True
       (handleBarcodeChange exampleAddScreen ''12345000001234500001299988'') exampleStore))
     = [''12345000001234500001299988'', ''12345000001234500001299988'']
   \<and> handedIdentifiers (calls (addSubmitPressed exampleClock True True
       (handleBarcodeChange exampleAddScreen ''12345000001234500001299988'') exampleStore))
     = [''12345000001234500001299988'', ''12345000001234500001299988'']
   \<and> handedIdentifiers (calls (inventorySubmitPressed exampleClock
       (handleScanInputChange exampleInventoryScreen ''12345000001234500001299988'')
       exampleStore))
     = [''12345000001234500001299988'', ''12345000001234500001299988'']
   \<and> extractBarcodeIdentifier ''12345000001234500001299988'' = ''34500000123450''
   \<and> ''12345000001234500001299988'' \<noteq> extractBarcodeIdentifier ''12345000001234500001299988''
   \<and> barcode (slots (newStore (addTimerFired exampleClock True True
         (handleBarcodeChange exampleAddScreen ''12345000001234500001299988'')
         exampleStore)) ! 2)
       = Some ''12345000001234500001299988''"
  by code_simp

end
